theory Spec2Isabelle
  imports Main "HOL-Library.Sublist" "HOL-Library.AList" "HOL-Library.Char_ord"
    "HOL-Library.List_Lexorder" "HOL-Library.Word"
begin

section \<open>Python values, exceptions and the library functions the tools call\<close>

text \<open>
  The three tools (\<^verbatim>\<open>read_file_tool.py\<close>, \<^verbatim>\<open>list_files_tool.py\<close>,
  \<^verbatim>\<open>edit_file_tool.py\<close>) and the agent loop (\<^verbatim>\<open>main.py\<close>) are embedded as HOL
  functions.  A Python \<^verbatim>\<open>str\<close> is a \<^typ>\<open>string\<close>, \<^verbatim>\<open>bytes\<close> a list of 8-bit words.
  An exception is a value of type \<open>exn\<close>; a computation that may raise returns
  \<open>exn + 'a\<close> with \<open>Inl\<close> for the raised exception.
\<close>

datatype errno = ENOENT | EEXIST | ENOTDIR | EISDIR | EACCES

datatype exn =
    Exception string
  | JSONDecodeError string
  | UnicodeDecodeError string
  | AttributeError string
  | TypeError string
  | KeyError string
  | OSError errno string

fun errno_text :: "errno \<Rightarrow> string" where
  "errno_text ENOENT = ''[Errno 2] No such file or directory''"
| "errno_text EEXIST = ''[Errno 17] File exists''"
| "errno_text ENOTDIR = ''[Errno 20] Not a directory''"
| "errno_text EISDIR = ''[Errno 21] Is a directory''"
| "errno_text EACCES = ''[Errno 13] Permission denied''"

text \<open>\<^verbatim>\<open>str(e)\<close>: the message of an exception.\<close>

fun str_exn :: "exn \<Rightarrow> string" where
  "str_exn (Exception m) = m"
| "str_exn (JSONDecodeError m) = m"
| "str_exn (UnicodeDecodeError m) = m"
| "str_exn (AttributeError m) = m"
| "str_exn (TypeError m) = m"
| "str_exn (KeyError m) = m"
| "str_exn (OSError e p) = errno_text e @ '': '' @ [CHR 0x27] @ p @ [CHR 0x27]"

text \<open>
  What \<^verbatim>\<open>json.loads\<close> returns.  An object carries string fields: the input schema of
  each tool declares every property with type string.
\<close>

datatype decoded =
    Obj "(string \<times> string) list"
  | Str string
  | Arr "decoded list"
  | Num int
  | Bool bool
  | Null

text \<open>What \<^verbatim>\<open>json.dumps\<close> is given by \<^verbatim>\<open>list_files\<close>.\<close>

datatype jvalue =
    JStr string
  | JInt int
  | JArr "jvalue list"
  | JObj "(string \<times> jvalue) list"

text \<open>
  The raw input of a tool handler: a \<^verbatim>\<open>str\<close>, a \<^verbatim>\<open>dict\<close>, \<^verbatim>\<open>bytes\<close>, or a value
  of any other type (carrying the text of \<^verbatim>\<open>type(input_data)\<close>).
\<close>

datatype tool_input =
    InStr string
  | InDict "(string \<times> string) list"
  | InBytes "8 word list"
  | InOther string

text \<open>
  \<^verbatim>\<open>json.loads\<close>, \<^verbatim>\<open>bytes.decode('utf-8')\<close> and \<^verbatim>\<open>json.dumps\<close> belong to the Python
  standard library, not to this repository: the handlers take them as parameters.
\<close>

record runtime =
  json_loads :: "string \<Rightarrow> exn + decoded"
  utf8_decode :: "8 word list \<Rightarrow> exn + string"
  json_dumps :: "jvalue \<Rightarrow> string"

type_synonym result = "string \<times> exn option"

text \<open>
  The three ways a block of handler code ends: it raises, it executes
  \<^verbatim>\<open>return\<close>, or it falls through with a value.
\<close>

datatype 'a flow = Raised exn | Returned result | Next 'a

section \<open>The file system behind \<^verbatim>\<open>os\<close> and \<^verbatim>\<open>open\<close>\<close>

text \<open>
  A file system is a tree: a regular file holds its text, a directory holds named
  children in the order \<^verbatim>\<open>os.listdir\<close> reports them.  The root is the working
  directory.  The model has no symbolic links, no \<^verbatim>\<open>..\<close> entries and no access
  control, and every regular file holds valid UTF-8 text; so \<^verbatim>\<open>open\<close> fails only for
  a missing path, a directory, or a path through a regular file.
\<close>

datatype node = File string | Dir "(string \<times> node) list"

fun split_on :: "char \<Rightarrow> string \<Rightarrow> string list" where
  "split_on c [] = [[]]"
| "split_on c (x # xs) =
     (if x = c then [] # split_on c xs
      else (case split_on c xs of [] \<Rightarrow> [[x]] | w # ws \<Rightarrow> (x # w) # ws))"

definition components :: "string \<Rightarrow> string list" where
  "components p = filter (\<lambda>w. w \<noteq> [] \<and> w \<noteq> ''.'') (split_on CHR ''/'' p)"

text \<open>A path ending in \<^verbatim>\<open>/\<close> or \<^verbatim>\<open>/.\<close> can only name a directory.\<close>

definition needs_dir :: "string \<Rightarrow> bool" where
  "needs_dir p = (last (split_on CHR ''/'' p) = [] \<or> last (split_on CHR ''/'' p) = ''.'')"

fun walk :: "node \<Rightarrow> string list \<Rightarrow> errno + node" where
  "walk n [] = Inr n"
| "walk (File c) (x # xs) = Inl ENOTDIR"
| "walk (Dir es) (x # xs) =
     (case map_of es x of None \<Rightarrow> Inl ENOENT | Some n \<Rightarrow> walk n xs)"

definition os_stat :: "node \<Rightarrow> string \<Rightarrow> errno + node" where
  "os_stat fs p =
     (if p = [] then Inl ENOENT
      else (case walk fs (components p) of
              Inl e \<Rightarrow> Inl e
            | Inr (File c) \<Rightarrow> if needs_dir p then Inl ENOTDIR else Inr (File c)
            | Inr (Dir es) \<Rightarrow> Inr (Dir es)))"

definition os_path_exists :: "node \<Rightarrow> string \<Rightarrow> bool" where
  "os_path_exists fs p = (case os_stat fs p of Inl e \<Rightarrow> False | Inr n \<Rightarrow> True)"

definition os_path_isdir :: "node \<Rightarrow> string \<Rightarrow> bool" where
  "os_path_isdir fs p = (case os_stat fs p of Inr (Dir es) \<Rightarrow> True | _ \<Rightarrow> False)"

text \<open>\<^verbatim>\<open>open(p, 'r', encoding='utf-8')\<close> followed by \<^verbatim>\<open>read()\<close>.\<close>

definition open_read :: "node \<Rightarrow> string \<Rightarrow> exn + string" where
  "open_read fs p =
     (case os_stat fs p of
        Inl e \<Rightarrow> Inl (OSError e p)
      | Inr (Dir es) \<Rightarrow> Inl (OSError EISDIR p)
      | Inr (File c) \<Rightarrow> Inr c)"

fun put :: "node \<Rightarrow> string list \<Rightarrow> string \<Rightarrow> errno + node" where
  "put (File old) [] c = Inr (File c)"
| "put (Dir es) [] c = Inl EISDIR"
| "put (File old) (x # xs) c = Inl ENOTDIR"
| "put (Dir es) (x # xs) c =
     (case map_of es x of
        None \<Rightarrow> if xs = [] then Inr (Dir (es @ [(x, File c)])) else Inl ENOENT
      | Some n \<Rightarrow>
          (case put n xs c of
             Inl e \<Rightarrow> Inl e
           | Inr n' \<Rightarrow> Inr (Dir (AList.update x n' es))))"

text \<open>
  \<^verbatim>\<open>open(p, 'w', encoding='utf-8')\<close> followed by \<^verbatim>\<open>write(c)\<close>: creates the file
  or truncates it; the parent directory must exist.
\<close>

definition open_write :: "node \<Rightarrow> string \<Rightarrow> string \<Rightarrow> exn + node" where
  "open_write fs p c =
     (if p = [] then Inl (OSError ENOENT p)
      else if needs_dir p then
        (case walk fs (components p) of
           Inr (File old) \<Rightarrow> Inl (OSError ENOTDIR p)
         | Inr (Dir es) \<Rightarrow> Inl (OSError EISDIR p)
         | Inl e \<Rightarrow>
             (case walk fs (butlast (components p)) of
                Inr (Dir es) \<Rightarrow> Inl (OSError EISDIR p)
              | _ \<Rightarrow> Inl (OSError e p)))
      else (case put fs (components p) c of
              Inl e \<Rightarrow> Inl (OSError e p)
            | Inr fs' \<Rightarrow> Inr fs'))"

fun mkdirs :: "node \<Rightarrow> string list \<Rightarrow> errno + node" where
  "mkdirs (Dir es) [] = Inr (Dir es)"
| "mkdirs (File c) [] = Inl EEXIST"
| "mkdirs (File c) (x # xs) = Inl ENOTDIR"
| "mkdirs (Dir es) (x # xs) =
     (case map_of es x of
        None \<Rightarrow>
          (case mkdirs (Dir []) xs of
             Inl e \<Rightarrow> Inl e
           | Inr n' \<Rightarrow> Inr (Dir (es @ [(x, n')])))
      | Some n \<Rightarrow>
          (case mkdirs n xs of
             Inl e \<Rightarrow> Inl e
           | Inr n' \<Rightarrow> Inr (Dir (AList.update x n' es))))"

text \<open>\<^verbatim>\<open>os.makedirs(p, exist_ok=True)\<close>.\<close>

definition os_makedirs :: "node \<Rightarrow> string \<Rightarrow> exn + node" where
  "os_makedirs fs p =
     (if p = [] then Inl (OSError ENOENT p)
      else (case mkdirs fs (components p) of
              Inl e \<Rightarrow> Inl (OSError e p)
            | Inr fs' \<Rightarrow> Inr fs'))"

text \<open>\<^verbatim>\<open>os.listdir(p)\<close>: the names of the children, in the directory's own order.\<close>

definition os_listdir :: "node \<Rightarrow> string \<Rightarrow> exn + string list" where
  "os_listdir fs p =
     (case os_stat fs p of
        Inl e \<Rightarrow> Inl (OSError e p)
      | Inr (File c) \<Rightarrow> Inl (OSError ENOTDIR p)
      | Inr (Dir es) \<Rightarrow> Inr (map fst es))"

text \<open>\<^verbatim>\<open>os.path.dirname\<close> and \<^verbatim>\<open>os.path.join\<close> of \<^verbatim>\<open>posixpath\<close>.\<close>

definition rstrip :: "char \<Rightarrow> string \<Rightarrow> string" where
  "rstrip c s = rev (dropWhile (\<lambda>x. x = c) (rev s))"

definition dirname :: "string \<Rightarrow> string" where
  "dirname p =
     (let head = rev (dropWhile (\<lambda>x. x \<noteq> CHR ''/'') (rev p))
      in if head \<noteq> [] \<and> \<not> list_all (\<lambda>x. x = CHR ''/'') head
         then rstrip CHR ''/'' head else head)"

definition path_join :: "string \<Rightarrow> string \<Rightarrow> string" where
  "path_join a b =
     (if b \<noteq> [] \<and> hd b = CHR ''/'' then b
      else if a = [] \<or> last a = CHR ''/'' then a @ b
      else a @ ''/'' @ b)"

text \<open>
  Names a directory can hold, and the invariant of a file system: in every directory
  the names are distinct and none is empty, \<^verbatim>\<open>.\<close>, \<^verbatim>\<open>..\<close> or contains a slash.
\<close>

definition valid_name :: "string \<Rightarrow> bool" where
  "valid_name w = (w \<noteq> [] \<and> w \<noteq> ''.'' \<and> w \<noteq> ''..'' \<and> CHR ''/'' \<notin> set w)"

fun wf_node :: "node \<Rightarrow> bool" where
  "wf_node (File c) = True"
| "wf_node (Dir es) =
     (distinct (map fst es) \<and> list_all (\<lambda>e. valid_name (fst e) \<and> wf_node (snd e)) es)"

section \<open>\<^verbatim>\<open>str.replace\<close>\<close>

text \<open>
  \<^verbatim>\<open>s.replace(old, new)\<close> scans from the left and replaces each occurrence it meets,
  continuing after the occurrence; an empty \<^verbatim>\<open>old\<close> matches before every character
  and at the end.
\<close>

function py_replace :: "string \<Rightarrow> string \<Rightarrow> string \<Rightarrow> string" where
  "py_replace s old new =
     (if s = [] then (if old = [] then new else [])
      else if old = [] then new @ hd s # py_replace (tl s) old new
      else if prefix old s then new @ py_replace (drop (length old) s) old new
      else hd s # py_replace (tl s) old new)"
  by pat_completeness auto
termination
  by (relation "measure (\<lambda>(s, old, new). length s)") auto

declare py_replace.simps [simp del]

section \<open>The tool boundary\<close>

text \<open>
  Every handler starts with the same \<^verbatim>\<open>isinstance\<close> chain and ends with the same two
  \<^verbatim>\<open>except\<close> clauses.  A handler call yields \<open>Inr (text, error)\<close> when it returns
  and \<open>Inl e\<close> when \<open>e\<close> leaves the handler.
\<close>

definition parse_input :: "runtime \<Rightarrow> tool_input \<Rightarrow> decoded flow" where
  "parse_input rt input_data =
     (case input_data of
        InStr s \<Rightarrow>
          (case json_loads rt s of Inl e \<Rightarrow> Raised e | Inr v \<Rightarrow> Next v)
      | InDict d \<Rightarrow> Next (Obj d)
      | InBytes b \<Rightarrow>
          (case utf8_decode rt b of
             Inl e \<Rightarrow> Raised e
           | Inr s \<Rightarrow> (case json_loads rt s of Inl e \<Rightarrow> Raised e | Inr v \<Rightarrow> Next v))
      | InOther t \<Rightarrow> Returned ([], Some (Exception (''Unknown input format: '' @ t))))"

text \<open>\<^verbatim>\<open>except json.JSONDecodeError\<close>, then \<^verbatim>\<open>except Exception\<close>.\<close>

fun tool_except :: "exn \<Rightarrow> result" where
  "tool_except (JSONDecodeError m) = ([], Some (Exception (''Invalid JSON input: '' @ m)))"
| "tool_except e = ([], Some e)"

definition leave :: "result flow \<Rightarrow> exn + result" where
  "leave f = (case f of Raised e \<Rightarrow> Inr (tool_except e) | Returned r \<Rightarrow> Inr r | Next r \<Rightarrow> Inr r)"

text \<open>\<^verbatim>\<open>input_dict.get(key, default)\<close>: only a dict has the method.\<close>

definition dict_get :: "decoded \<Rightarrow> string \<Rightarrow> string \<Rightarrow> exn + string" where
  "dict_get v k dflt =
     (case v of
        Obj d \<Rightarrow> Inr (case map_of d k of None \<Rightarrow> dflt | Some x \<Rightarrow> x)
      | _ \<Rightarrow> Inl (AttributeError ''object has no attribute get''))"

text \<open>\<^verbatim>\<open>key in input_dict\<close> and \<^verbatim>\<open>input_dict[key]\<close>.\<close>

definition contains_key :: "decoded \<Rightarrow> string \<Rightarrow> exn + bool" where
  "contains_key v k =
     (case v of
        Obj d \<Rightarrow> Inr (map_of d k \<noteq> None)
      | Str s \<Rightarrow> Inr (sublist k s)
      | Arr xs \<Rightarrow> Inr (Str k \<in> set xs)
      | _ \<Rightarrow> Inl (TypeError ''argument is not iterable''))"

definition subscript :: "decoded \<Rightarrow> string \<Rightarrow> exn + string" where
  "subscript v k =
     (case v of
        Obj d \<Rightarrow> (case map_of d k of None \<Rightarrow> Inl (KeyError k) | Some x \<Rightarrow> Inr x)
      | _ \<Rightarrow> Inl (TypeError ''indices must be integers''))"

section \<open>\<^verbatim>\<open>edit_file_tool.py\<close>\<close>

definition create_new_file :: "node \<Rightarrow> string \<Rightarrow> string \<Rightarrow> string \<times> node" where
  "create_new_file fs file_path content =
     (let dir_path = dirname file_path
      in case (if dir_path \<noteq> [] \<and> dir_path \<noteq> ''.'' then os_makedirs fs dir_path else Inr fs) of
           Inl e \<Rightarrow> (''Failed to create file: '' @ str_exn e, fs)
         | Inr fs1 \<Rightarrow>
             (case open_write fs1 file_path content of
                Inl e \<Rightarrow> (''Failed to create file: '' @ str_exn e, fs1)
              | Inr fs2 \<Rightarrow> (''Successfully created file '' @ file_path, fs2)))"

definition edit_fields :: "node \<Rightarrow> string \<Rightarrow> string \<Rightarrow> string \<Rightarrow> result \<times> node" where
  "edit_fields fs file_path old_str new_str =
     (if file_path = [] \<or> old_str = new_str
      then (([], Some (Exception ''Invalid input parameters'')), fs)
      else if \<not> os_path_exists fs file_path then
        (if old_str = [] then
           (case create_new_file fs file_path new_str of (res, fs') \<Rightarrow> ((res, None), fs'))
         else (([], Some (Exception (''File not found: '' @ file_path))), fs))
      else
        (case open_read fs file_path of
           Inl e \<Rightarrow> (([], Some (Exception (''Failed to read file: '' @ str_exn e))), fs)
         | Inr old_content \<Rightarrow>
             (let new_content = py_replace old_content old_str new_str
              in if old_content = new_content \<and> old_str \<noteq> []
                 then (([], Some (Exception ''old_str not found in file'')), fs)
                 else (case open_write fs file_path new_content of
                         Inl e \<Rightarrow>
                           (([], Some (Exception (''Failed to write file: '' @ str_exn e))), fs)
                       | Inr fs' \<Rightarrow> ((''OK'', None), fs')))))"

definition edit_file_try :: "runtime \<Rightarrow> node \<Rightarrow> tool_input \<Rightarrow> result flow \<times> node" where
  "edit_file_try rt fs input_data =
     (case parse_input rt input_data of
        Raised e \<Rightarrow> (Raised e, fs)
      | Returned r \<Rightarrow> (Returned r, fs)
      | Next input_dict \<Rightarrow>
          (case dict_get input_dict ''path'' [] of
             Inl e \<Rightarrow> (Raised e, fs)
           | Inr file_path \<Rightarrow>
          (case dict_get input_dict ''old_str'' [] of
             Inl e \<Rightarrow> (Raised e, fs)
           | Inr old_str \<Rightarrow>
          (case dict_get input_dict ''new_str'' [] of
             Inl e \<Rightarrow> (Raised e, fs)
           | Inr new_str \<Rightarrow>
               (case edit_fields fs file_path old_str new_str of
                  (r, fs') \<Rightarrow> (Returned r, fs'))))))"

definition edit_file :: "runtime \<Rightarrow> node \<Rightarrow> tool_input \<Rightarrow> (exn + result) \<times> node" where
  "edit_file rt fs input_data =
     (case edit_file_try rt fs input_data of (f, fs') \<Rightarrow> (leave f, fs'))"

section \<open>\<^verbatim>\<open>read_file_tool.py\<close>\<close>

definition read_file_try :: "runtime \<Rightarrow> node \<Rightarrow> tool_input \<Rightarrow> result flow" where
  "read_file_try rt fs input_data =
     (case parse_input rt input_data of
        Raised e \<Rightarrow> Raised e
      | Returned r \<Rightarrow> Returned r
      | Next input_dict \<Rightarrow>
          (case contains_key input_dict ''path'' of
             Inl e \<Rightarrow> Raised e
           | Inr False \<Rightarrow> Returned ([], Some (Exception ''No 'path' field in input''))
           | Inr True \<Rightarrow>
               (case subscript input_dict ''path'' of
                  Inl e \<Rightarrow> Raised e
                | Inr file_path \<Rightarrow>
                    if \<not> os_path_exists fs file_path
                    then Returned ([], Some (Exception (''File not found: '' @ file_path)))
                    else (case open_read fs file_path of
                            Inl e \<Rightarrow> Raised e
                          | Inr content \<Rightarrow> Returned (content, None)))))"

definition read_file :: "runtime \<Rightarrow> node \<Rightarrow> tool_input \<Rightarrow> (exn + result) \<times> node" where
  "read_file rt fs input_data = (leave (read_file_try rt fs input_data), fs)"

section \<open>\<^verbatim>\<open>list_files_tool.py\<close>\<close>

definition mark_item :: "node \<Rightarrow> string \<Rightarrow> string \<Rightarrow> string" where
  "mark_item fs dir_path item =
     (if os_path_isdir fs (path_join dir_path item) then item @ ''/'' else item)"

definition listing :: "string list \<Rightarrow> string \<Rightarrow> jvalue" where
  "listing files dir_path =
     JObj [(''files'', JArr (map JStr files)),
           (''directory'', JStr dir_path),
           (''count'', JInt (int (length files)))]"

definition list_files_try :: "runtime \<Rightarrow> node \<Rightarrow> tool_input \<Rightarrow> result flow" where
  "list_files_try rt fs input_data =
     (case parse_input rt input_data of
        Raised e \<Rightarrow> Raised e
      | Returned r \<Rightarrow> Returned r
      | Next input_dict \<Rightarrow>
          (case dict_get input_dict ''path'' ''.'' of
             Inl e \<Rightarrow> Raised e
           | Inr dir_path \<Rightarrow>
               if \<not> os_path_exists fs dir_path
               then Returned ([], Some (Exception (''Directory not found: '' @ dir_path)))
               else if \<not> os_path_isdir fs dir_path
               then Returned ([], Some (Exception (''Path is not a directory: '' @ dir_path)))
               else
                 (case os_listdir fs dir_path of
                    Inl (OSError EACCES q) \<Rightarrow>
                      Returned ([], Some (Exception
                        (''Permission denied accessing directory: '' @ dir_path)))
                  | Inl e \<Rightarrow> Raised e
                  | Inr items \<Rightarrow>
                      (let files = sort (map (mark_item fs dir_path) items)
                       in Returned (json_dumps rt (listing files dir_path), None)))))"

definition list_files :: "runtime \<Rightarrow> node \<Rightarrow> tool_input \<Rightarrow> (exn + result) \<times> node" where
  "list_files rt fs input_data = (leave (list_files_try rt fs input_data), fs)"

section \<open>\<^verbatim>\<open>tools_definition.py\<close> and the agent loop of \<^verbatim>\<open>main.py\<close>\<close>

text \<open>
  A tool definition carries its name, its description and its function.  The function
  runs against the file system; it may return or raise.
\<close>

record tool_definition =
  tool_name :: string
  tool_description :: string
  tool_function :: "node \<Rightarrow> tool_input \<Rightarrow> (exn + result) \<times> node"

definition ReadFileDefinition :: "runtime \<Rightarrow> tool_definition" where
  "ReadFileDefinition rt =
     \<lparr> tool_name = ''read_file'',
       tool_description = ''Read the contents of a given relative file path.'',
       tool_function = read_file rt \<rparr>"

definition ListFilesDefinition :: "runtime \<Rightarrow> tool_definition" where
  "ListFilesDefinition rt =
     \<lparr> tool_name = ''list_files'',
       tool_description = ''List files and directories at a given path.'',
       tool_function = list_files rt \<rparr>"

definition EditFileDefinition :: "runtime \<Rightarrow> tool_definition" where
  "EditFileDefinition rt =
     \<lparr> tool_name = ''edit_file'',
       tool_description = ''Make edits to a text file.'',
       tool_function = edit_file rt \<rparr>"

text \<open>
  Content blocks of a model reply: text, a tool request, a block of another type, and
  a block without a \<^verbatim>\<open>type\<close> attribute.  A tool result is the dictionary
  \<^verbatim>\<open>execute_tool\<close> builds.
\<close>

datatype block =
    TextBlock string
  | ToolUse string string tool_input
  | OtherBlock string
  | Untyped string

datatype tool_result = ToolResult (tool_use_id: string) (content: string) (is_error: bool)

datatype role = User | Assistant

datatype body = Text string | Blocks "block list" | Results "tool_result list"

datatype message = Message role body

text \<open>What the loop prints.\<close>

datatype event =
    Prompt
  | Says string
  | ToolEcho string tool_input
  | DebugInput tool_input
  | DebugException string
  | ApiError string

fun find_tool :: "tool_definition list \<Rightarrow> string \<Rightarrow> tool_definition option" where
  "find_tool [] n = None"
| "find_tool (t # ts) n = (if tool_name t = n then Some t else find_tool ts n)"

definition execute_tool ::
  "tool_definition list \<Rightarrow> node \<Rightarrow> string \<Rightarrow> string \<Rightarrow> tool_input
     \<Rightarrow> tool_result \<times> node \<times> event list" where
  "execute_tool tools fs tool_id name tool_input =
     (case find_tool tools name of
        None \<Rightarrow> (ToolResult tool_id ''tool not found'' True, fs, [])
      | Some tool_def \<Rightarrow>
          (case tool_function tool_def fs tool_input of
             (Inr (response, Some error), fs') \<Rightarrow>
               (ToolResult tool_id (str_exn error) True, fs',
                [ToolEcho name tool_input, DebugInput tool_input])
           | (Inr (response, None), fs') \<Rightarrow>
               (ToolResult tool_id response False, fs',
                [ToolEcho name tool_input, DebugInput tool_input])
           | (Inl e, fs') \<Rightarrow>
               (ToolResult tool_id (str_exn e) True, fs',
                [ToolEcho name tool_input, DebugInput tool_input, DebugException (str_exn e)])))"

text \<open>The \<^verbatim>\<open>for content in response.content\<close> loop of \<^verbatim>\<open>Agent.run\<close>.\<close>

fun run_blocks ::
  "tool_definition list \<Rightarrow> node \<Rightarrow> block list \<Rightarrow> tool_result list \<times> node \<times> event list" where
  "run_blocks tools fs [] = ([], fs, [])"
| "run_blocks tools fs (TextBlock t # bs) =
     (case run_blocks tools fs bs of (rs, fs', ev) \<Rightarrow> (rs, fs', Says t # ev))"
| "run_blocks tools fs (ToolUse i n inp # bs) =
     (case execute_tool tools fs i n inp of
        (r, fs1, ev1) \<Rightarrow>
          (case run_blocks tools fs1 bs of (rs, fs2, ev2) \<Rightarrow> (r # rs, fs2, ev1 @ ev2)))"
| "run_blocks tools fs (OtherBlock ty # bs) = run_blocks tools fs bs"
| "run_blocks tools fs (Untyped t # bs) =
     (case run_blocks tools fs bs of (rs, fs', ev) \<Rightarrow> (rs, fs', Says t # ev))"

record agent =
  conversation :: "message list"
  waiting_for_user_input :: bool
  files :: node
  user_input :: "string list"
  printed :: "event list"

text \<open>
  The \<^verbatim>\<open>try\<close> block of the loop body.  \<^verbatim>\<open>run_inference\<close> calls the remote model:
  it is a parameter that answers a conversation with content blocks or raises.
\<close>

definition model_turn ::
  "(message list \<Rightarrow> exn + block list) \<Rightarrow> tool_definition list \<Rightarrow> agent \<Rightarrow> agent" where
  "model_turn run_inference tools a =
     (case run_inference (conversation a) of
        Inl e \<Rightarrow>
          a\<lparr> waiting_for_user_input := True, printed := printed a @ [ApiError (str_exn e)] \<rparr>
      | Inr response \<Rightarrow>
          (case run_blocks tools (files a) response of
             (tool_results, fs', ev) \<Rightarrow>
               if length tool_results = 0 then
                 a\<lparr> conversation := conversation a @ [Message Assistant (Blocks response)],
                    waiting_for_user_input := True,
                    files := fs',
                    printed := printed a @ ev \<rparr>
               else
                 a\<lparr> conversation := conversation a @ [Message Assistant (Blocks response)]
                                      @ [Message User (Results tool_results)],
                    waiting_for_user_input := False,
                    files := fs',
                    printed := printed a @ ev \<rparr>))"

text \<open>One pass through the body of \<^verbatim>\<open>while True\<close>; \<open>None\<close> is \<^verbatim>\<open>break\<close>.\<close>

definition loop_body ::
  "(message list \<Rightarrow> exn + block list) \<Rightarrow> tool_definition list \<Rightarrow> agent \<Rightarrow> agent option" where
  "loop_body run_inference tools a =
     (if waiting_for_user_input a then
        (case user_input a of
           [] \<Rightarrow> None
         | line # rest \<Rightarrow>
             Some (model_turn run_inference tools
               (a\<lparr> conversation := conversation a @ [Message User (Text line)],
                   user_input := rest,
                   printed := printed a @ [Prompt] \<rparr>)))
      else Some (model_turn run_inference tools a))"

text \<open>
  \<^verbatim>\<open>Agent.run\<close>: the loop ends at the end of the user's input and need not end
  otherwise, so the result is optional.
\<close>

partial_function (option) run ::
  "(message list \<Rightarrow> exn + block list) \<Rightarrow> tool_definition list \<Rightarrow> agent \<Rightarrow> agent option" where
  "run run_inference tools a =
     (case loop_body run_inference tools a of
        None \<Rightarrow> Some a
      | Some a' \<Rightarrow> run run_inference tools a')"

text \<open>The tool requests of a reply, in order.\<close>

fun tool_use_ids :: "block list \<Rightarrow> string list" where
  "tool_use_ids [] = []"
| "tool_use_ids (ToolUse i n inp # bs) = i # tool_use_ids bs"
| "tool_use_ids (b # bs) = tool_use_ids bs"

section \<open>The entries \<^verbatim>\<open>list_files\<close> is to report\<close>

text \<open>
  The name under which a child appears in a listing, as the specification words it: a
  directory's name is followed by the separator, a file's name stands as it is.
\<close>

definition entry_name :: "string \<times> node \<Rightarrow> string" where
  "entry_name e = (case snd e of Dir k \<Rightarrow> fst e @ ''/'' | File c \<Rightarrow> fst e)"

section \<open>Paths at which a file can be created\<close>


section \<open>A runtime and a file system to run the handlers on\<close>

text \<open>
  A runtime that decodes two fixed texts, and a small tree: the directory of the
  specification's example (\<^verbatim>\<open>b.txt\<close>, \<^verbatim>\<open>a.txt\<close>, \<^verbatim>\<open>sub\<close>) with a file
  \<^verbatim>\<open>f\<close> next to it.
\<close>

definition edit_request :: "(string \<times> string) list" where
  "edit_request = [(''path'', ''f''), (''old_str'', ''hello''), (''new_str'', ''world'')]"

definition test_runtime :: runtime where
  "test_runtime =
     \<lparr> json_loads = (\<lambda>s. if s = ''{}'' then Inr (Obj [])
                          else if s = ''edit'' then Inr (Obj edit_request)
                          else Inl (JSONDecodeError ''Expecting value'')),
       utf8_decode = (\<lambda>b. if b = [0x7B, 0x7D] then Inr ''{}''
                           else Inl (UnicodeDecodeError ''invalid start byte'')),
       json_dumps = (\<lambda>v. []) \<rparr>"

definition test_fs :: node where
  "test_fs =
     Dir [(''f'', File ''hello''),
          (''d'', Dir [(''b.txt'', File []), (''a.txt'', File ''x''), (''sub'', Dir [])])]"


definition two_requests :: "block list" where
  "two_requests =
     [TextBlock ''reading'',
      ToolUse ''id1'' ''read_file'' (InDict [(''path'', ''f'')]),
      ToolUse ''id2'' ''delete_file'' (InDict [])]"

definition test_agent :: agent where
  "test_agent =
     \<lparr> conversation = [Message User (Text ''hi'')],
       waiting_for_user_input = False,
       files = test_fs,
       user_input = [],
       printed = [] \<rparr>"

section \<open>Properties of \<^verbatim>\<open>str.replace\<close>\<close>

lemma py_replace_Nil [simp]: "py_replace [] old new = (if old = [] then new else [])"
  by (simp add: py_replace.simps)

lemma py_replace_Cons:
  "py_replace (x # xs) old new =
     (if old = [] then new @ x # py_replace xs old new
      else if prefix old (x # xs) then new @ py_replace (drop (length old) (x # xs)) old new
      else x # py_replace xs old new)"
  by (subst py_replace.simps) simp






text \<open>
  The first occurrence from the left is the one replaced, and the scan goes on behind it.
\<close>

lemma py_replace_first_occurrence:
  assumes "old \<noteq> []" and "\<not> sublist old (u @ butlast old)"
  shows "py_replace (u @ old @ v) old new = u @ new @ py_replace v old new"
  using assms(2)
proof (induction u)
  case Nil
  obtain x xs where x: "old @ v = x # xs"
    using assms(1) by (cases old) auto
  have "py_replace (x # xs) old new = new @ py_replace (drop (length old) (x # xs)) old new"
    using assms(1) x by (subst py_replace_Cons) (metis prefixI)
  then show ?case using x by (metis append_Nil append_eq_conv_conj)
next
  case (Cons x u)
  have "\<not> prefix old (x # u @ old @ v)"
  proof
    assume p: "prefix old (x # u @ old @ v)"
    have "x # u @ old @ v = ((x # u) @ butlast old) @ (last old # v)"
      using assms(1) by simp
    with p have "prefix old (((x # u) @ butlast old) @ (last old # v))" by simp
    then consider "prefix old ((x # u) @ butlast old)"
      | us where "old = ((x # u) @ butlast old) @ us"
      unfolding prefix_append by blast
    then have "prefix old ((x # u) @ butlast old)"
    proof cases
      case 1
      then show ?thesis .
    next
      case 2
      then have "length old = length ((x # u) @ butlast old) + length us"
        by (metis length_append)
      moreover have "0 < length old" using assms(1) by simp
      ultimately have "length us = 0" by simp
      then have "us = []" by simp
      with 2 show ?thesis by simp
    qed
    then have "sublist old ((x # u) @ butlast old)"
      by (rule prefix_imp_sublist)
    with Cons.prems show False by simp
  qed
  moreover have "\<not> sublist old (u @ butlast old)"
    using Cons.prems by (simp add: sublist_Cons_right)
  ultimately show ?case
    using Cons.IH assms(1) by (simp add: py_replace_Cons)
qed

section \<open>Validation in \<^verbatim>\<open>edit_file\<close>\<close>

lemma edit_file_InDict:
  "edit_file rt fs (InDict d) =
     (case edit_fields fs (case map_of d ''path'' of None \<Rightarrow> [] | Some x \<Rightarrow> x)
             (case map_of d ''old_str'' of None \<Rightarrow> [] | Some x \<Rightarrow> x)
             (case map_of d ''new_str'' of None \<Rightarrow> [] | Some x \<Rightarrow> x) of
        (r, fs') \<Rightarrow> (Inr r, fs'))"
  by (simp add: edit_file_def edit_file_try_def parse_input_def dict_get_def leave_def
      split: prod.splits)

section \<open>File-system facts\<close>


text \<open>Overwriting a file leaves every path that is not one of its ancestors as it was.\<close>

lemma put_frame:
  "walk n cs = Inr (File c) \<Longrightarrow> put n cs c' = Inr n' \<Longrightarrow> \<not> prefix q cs \<Longrightarrow>
     walk n' q = walk n q"
proof (induction n cs arbitrary: n' q rule: walk.induct)
  case (1 n)
  then show ?case by (cases q) auto
next
  case (2 d x xs)
  then show ?case by simp
next
  case (3 es x xs)
  then obtain m where m: "map_of es x = Some m" and w: "walk m xs = Inr (File c)"
    by (auto split: option.splits)
  with "3.prems" obtain m' where m': "put m xs c' = Inr m'" and n': "n' = Dir (AList.update x m' es)"
    by (auto split: sum.splits)
  show ?case
  proof (cases q)
    case Nil
    then show ?thesis using "3.prems" by simp
  next
    case (Cons y ys)
    show ?thesis
    proof (cases "y = x")
      case True
      with Cons "3.prems" have "\<not> prefix ys xs" by simp
      then have "walk m' ys = walk m ys"
        using "3.IH" [OF m w m'] by simp
      with True Cons n' m show ?thesis by (simp add: update_conv')
    next
      case False
      with Cons n' show ?thesis by (simp add: update_conv')
    qed
  qed
qed






section \<open>\<^verbatim>\<open>edit_file\<close> on the fields of a decoded input\<close>

lemma edit_file_parsed:
  assumes "parse_input rt input_data = Next v"
    and "dict_get v ''path'' [] = Inr file_path"
    and "dict_get v ''old_str'' [] = Inr old_str"
    and "dict_get v ''new_str'' [] = Inr new_str"
  shows "edit_file rt fs input_data =
           (Inr (fst (edit_fields fs file_path old_str new_str)),
            snd (edit_fields fs file_path old_str new_str))"
  using assms by (simp add: edit_file_def edit_file_try_def leave_def split: prod.splits)


lemma test_fs_stat_f: "os_stat test_fs ''f'' = Inr (File ''hello'')"
  by (simp add: os_stat_def test_fs_def components_def needs_dir_def)

text \<open>
  C4.  Whenever the path field is empty or \<^verbatim>\<open>old_str\<close> equals \<^verbatim>\<open>new_str\<close> (both
  may be empty), \<^verbatim>\<open>edit_file\<close> returns the error \<^verbatim>\<open>Invalid input parameters\<close> with an
  empty result, whatever the file system holds, and the file system is unchanged.
\<close>

theorem edit_file_invalid_input:
  assumes "parse_input rt input_data = Next v"
    and "dict_get v ''path'' [] = Inr file_path"
    and "dict_get v ''old_str'' [] = Inr old_str"
    and "dict_get v ''new_str'' [] = Inr new_str"
    and "file_path = [] \<or> old_str = new_str"
  shows "edit_file rt fs input_data =
           (Inr ([], Some (Exception ''Invalid input parameters'')), fs)"
  using edit_file_parsed [OF assms(1-4)] assms(5) by (auto simp: edit_fields_def)

theorem edit_file_invalid_input_witness:
  "edit_file test_runtime test_fs (InDict [(''path'', ''f'')]) =
     (Inr ([], Some (Exception ''Invalid input parameters'')), test_fs)"
proof -
  let ?d = "[(''path'', ''f'')]"
  have "parse_input test_runtime (InDict ?d) = Next (Obj ?d)"
    by (simp add: parse_input_def)
  moreover have "dict_get (Obj ?d) ''path'' [] = Inr ''f''"
    and "dict_get (Obj ?d) ''old_str'' [] = Inr []"
    and "dict_get (Obj ?d) ''new_str'' [] = Inr []"
    by (simp_all add: dict_get_def)
  ultimately show ?thesis
    using edit_file_invalid_input [of test_runtime "InDict ?d" "Obj ?d" "''f''" "[]" "[]" test_fs]
    by simp
qed









section \<open>The three input encodings\<close>

lemma parse_input_InStr:
  "json_loads rt s = Inr (Obj d) \<Longrightarrow> parse_input rt (InStr s) = parse_input rt (InDict d)"
  by (simp add: parse_input_def)

lemma parse_input_InBytes:
  "utf8_decode rt b = Inr s \<Longrightarrow> parse_input rt (InBytes b) = parse_input rt (InStr s)"
  by (simp add: parse_input_def)

lemma handlers_parse_cong:
  assumes "parse_input rt i = parse_input rt j"
  shows "read_file rt fs i = read_file rt fs j"
    and "list_files rt fs i = list_files rt fs j"
    and "edit_file rt fs i = edit_file rt fs j"
  using assms
  by (simp_all add: read_file_def read_file_try_def list_files_def list_files_try_def
      edit_file_def edit_file_try_def)

lemma handlers_InOther:
  "read_file rt fs (InOther t) = (Inr ([], Some (Exception (''Unknown input format: '' @ t))), fs)"
  "list_files rt fs (InOther t) = (Inr ([], Some (Exception (''Unknown input format: '' @ t))), fs)"
  "edit_file rt fs (InOther t) = (Inr ([], Some (Exception (''Unknown input format: '' @ t))), fs)"
  by (simp_all add: read_file_def read_file_try_def list_files_def list_files_try_def
      edit_file_def edit_file_try_def parse_input_def leave_def)

text \<open>
  C7.  For each of the three tools, a JSON text that decodes to a dictionary, that
  dictionary itself, and bytes that decode to that text give the same outcome (result,
  error and file system); an input of any other type gives the error
  \<^verbatim>\<open>Unknown input format\<close>.
\<close>

theorem input_encodings_agree:
  assumes "utf8_decode rt b = Inr s" and "json_loads rt s = Inr (Obj d)"
  shows "read_file rt fs (InStr s) = read_file rt fs (InDict d) \<and>
         read_file rt fs (InBytes b) = read_file rt fs (InDict d) \<and>
         list_files rt fs (InStr s) = list_files rt fs (InDict d) \<and>
         list_files rt fs (InBytes b) = list_files rt fs (InDict d) \<and>
         edit_file rt fs (InStr s) = edit_file rt fs (InDict d) \<and>
         edit_file rt fs (InBytes b) = edit_file rt fs (InDict d) \<and>
         read_file rt fs (InOther t) =
           (Inr ([], Some (Exception (''Unknown input format: '' @ t))), fs) \<and>
         list_files rt fs (InOther t) =
           (Inr ([], Some (Exception (''Unknown input format: '' @ t))), fs) \<and>
         edit_file rt fs (InOther t) =
           (Inr ([], Some (Exception (''Unknown input format: '' @ t))), fs)"
proof -
  have s: "parse_input rt (InStr s) = parse_input rt (InDict d)"
    using assms(2) by (rule parse_input_InStr)
  have b: "parse_input rt (InBytes b) = parse_input rt (InDict d)"
    using parse_input_InBytes [OF assms(1)] s by simp
  show ?thesis
    using handlers_parse_cong [OF s] handlers_parse_cong [OF b] handlers_InOther
    by simp
qed

theorem input_encodings_agree_witness:
  "read_file test_runtime test_fs (InStr ''{}'') = read_file test_runtime test_fs (InDict []) \<and>
   read_file test_runtime test_fs (InBytes [0x7B, 0x7D]) =
     read_file test_runtime test_fs (InDict []) \<and>
   list_files test_runtime test_fs (InBytes [0x7B, 0x7D]) =
     list_files test_runtime test_fs (InDict []) \<and>
   edit_file test_runtime test_fs (InBytes [0x7B, 0x7D]) =
     edit_file test_runtime test_fs (InDict []) \<and>
   edit_file test_runtime test_fs (InOther ''int'') =
     (Inr ([], Some (Exception ''Unknown input format: int'')), test_fs)"
proof -
  have "utf8_decode test_runtime [0x7B, 0x7D] = Inr ''{}''"
    and "json_loads test_runtime ''{}'' = Inr (Obj [])"
    by (simp_all add: test_runtime_def)
  then show ?thesis
    using input_encodings_agree [of test_runtime "[0x7B, 0x7D]" "''{}''" "[]" test_fs "''int''"]
    by simp
qed

text \<open>
  C10.  When the path names an existing directory, \<^verbatim>\<open>read_file\<close> passes the existence
  check, \<^verbatim>\<open>open\<close> raises \<^verbatim>\<open>IsADirectoryError\<close>, and the handler returns that
  exception in the error slot with an empty result: it neither raises nor returns content,
  and the error is not the \<^verbatim>\<open>File not found\<close> one.
\<close>

theorem read_file_directory:
  assumes "parse_input rt input_data = Next (Obj d)"
    and "map_of d ''path'' = Some file_path"
    and "os_stat fs file_path = Inr (Dir es)"
  shows "os_path_exists fs file_path \<and>
         open_read fs file_path = Inl (OSError EISDIR file_path) \<and>
         read_file rt fs input_data = (Inr ([], Some (OSError EISDIR file_path)), fs) \<and>
         OSError EISDIR file_path \<noteq> Exception (''File not found: '' @ file_path)"
  using assms
  by (simp add: read_file_def read_file_try_def contains_key_def subscript_def
      os_path_exists_def open_read_def leave_def)

lemma test_fs_stat_d:
  "os_stat test_fs ''d'' =
     Inr (Dir [(''b.txt'', File []), (''a.txt'', File ''x''), (''sub'', Dir [])])"
  by (simp add: os_stat_def test_fs_def components_def needs_dir_def)

theorem read_file_directory_witness:
  "read_file test_runtime test_fs (InDict [(''path'', ''d'')]) =
     (Inr ([], Some (OSError EISDIR ''d'')), test_fs)"
proof -
  have "parse_input test_runtime (InDict [(''path'', ''d'')]) = Next (Obj [(''path'', ''d'')])"
    by (simp add: parse_input_def)
  moreover have "map_of [(''path'', ''d'')] ''path'' = Some ''d''"
    by simp
  ultimately show ?thesis
    using read_file_directory [OF _ _ test_fs_stat_d] by blast
qed

section \<open>Failures of the handlers\<close>

lemma leave_returns: "\<exists>r. leave f = Inr r"
  by (cases f) (simp_all add: leave_def)

lemma handlers_never_raise:
  "\<exists>r. fst (read_file rt fs i) = Inr r"
  "\<exists>r. fst (list_files rt fs i) = Inr r"
  "\<exists>r. fst (edit_file rt fs i) = Inr r"
proof -
  show "\<exists>r. fst (read_file rt fs i) = Inr r"
    using leave_returns [of "read_file_try rt fs i"] by (simp add: read_file_def)
  show "\<exists>r. fst (list_files rt fs i) = Inr r"
    using leave_returns [of "list_files_try rt fs i"] by (simp add: list_files_def)
  show "\<exists>r. fst (edit_file rt fs i) = Inr r"
    using leave_returns [of "fst (edit_file_try rt fs i)"]
    by (cases "edit_file_try rt fs i") (simp add: edit_file_def)
qed

text \<open>
  C1 does not hold of \<^verbatim>\<open>edit_file\<close>.  Asked to create \<^verbatim>\<open>f/new.txt\<close> where \<^verbatim>\<open>f\<close> is
  a regular file, \<^verbatim>\<open>os.makedirs\<close> raises, \<^verbatim>\<open>create_new_file\<close> turns the exception
  into the text \<^verbatim>\<open>Failed to create file: ...\<close>, and \<^verbatim>\<open>edit_file\<close> returns that text
  as its result with no error; nothing is created.
\<close>

theorem edit_file_failure_as_result:
  "edit_file test_runtime test_fs (InDict [(''path'', ''f/new.txt''), (''new_str'', ''x'')]) =
     (Inr (''Failed to create file: [Errno 17] File exists: '' @ [CHR 0x27] @ ''f'' @ [CHR 0x27],
           None),
      test_fs)"
  by (simp add: edit_file_InDict edit_fields_def os_path_exists_def os_stat_def
      components_def needs_dir_def test_fs_def create_new_file_def dirname_def rstrip_def
      os_makedirs_def open_write_def)



section \<open>The agent loop\<close>

lemma execute_tool_id: "tool_use_id (fst (execute_tool tools fs i n inp)) = i"
  by (simp add: execute_tool_def split: option.splits prod.splits sum.splits)

lemma run_blocks_ids:
  "map tool_use_id (fst (run_blocks tools fs bs)) = tool_use_ids bs"
proof (induction tools fs bs rule: run_blocks.induct)
  case (3 tools fs i n inp bs)
  obtain r fs1 ev1 where e: "execute_tool tools fs i n inp = (r, fs1, ev1)"
    by (cases "execute_tool tools fs i n inp") auto
  then have "tool_use_id r = i"
    using execute_tool_id [of tools fs i n inp] by simp
  moreover have "map tool_use_id (fst (run_blocks tools fs1 bs)) = tool_use_ids bs"
    using 3 e by simp
  ultimately show ?case
    using e by (cases "run_blocks tools fs1 bs") simp
qed (auto split: prod.splits)

text \<open>
  C8.  When the model's reply holds the tool requests \<open>i\<^sub>1, \<dots>, i\<^sub>N\<close> in this order, the
  loop appends the assistant message and, if \<open>N \<ge> 1\<close>, exactly one user message whose
  content is a list of tool results with the ids \<open>i\<^sub>1, \<dots>, i\<^sub>N\<close> in the same order, and
  goes on without asking the user; if \<open>N = 0\<close> it appends no such message and waits for
  the user.
\<close>

theorem tool_results_follow_tool_uses:
  assumes "run_inference (conversation a) = Inr response"
  shows "\<exists>rs. map tool_use_id rs = tool_use_ids response \<and>
           conversation (model_turn run_inference tools a) =
             conversation a @ [Message Assistant (Blocks response)] @
               (if tool_use_ids response = [] then [] else [Message User (Results rs)]) \<and>
           waiting_for_user_input (model_turn run_inference tools a) =
             (tool_use_ids response = [])"
proof -
  obtain rs fs' ev where r: "run_blocks tools (files a) response = (rs, fs', ev)"
    by (cases "run_blocks tools (files a) response") auto
  have ids: "map tool_use_id rs = tool_use_ids response"
    using run_blocks_ids [of tools "files a" response] r by simp
  then have "(rs = []) = (tool_use_ids response = [])"
    by (metis map_is_Nil_conv)
  with assms r ids show ?thesis
    by (auto simp: model_turn_def)
qed

theorem tool_results_follow_tool_uses_witness:
  "\<exists>rs. map tool_use_id rs = [''id1'', ''id2''] \<and>
     conversation (model_turn (\<lambda>c. Inr two_requests) [ReadFileDefinition test_runtime] test_agent) =
       [Message User (Text ''hi''), Message Assistant (Blocks two_requests),
        Message User (Results rs)] \<and>
     \<not> waiting_for_user_input
         (model_turn (\<lambda>c. Inr two_requests) [ReadFileDefinition test_runtime] test_agent)"
  using tool_results_follow_tool_uses
    [of "\<lambda>c. Inr two_requests" test_agent two_requests "[ReadFileDefinition test_runtime]"]
  by (simp add: two_requests_def test_agent_def)

lemma two_requests_conversation:
  "conversation (model_turn (\<lambda>c. Inr two_requests) [ReadFileDefinition test_runtime] test_agent) =
       [Message User (Text ''hi''), Message Assistant (Blocks two_requests),
        Message User (Results [ToolResult ''id1'' ''hello'' False, ToolResult ''id2'' ''tool not found'' True])]"
  by (simp add: model_turn_def two_requests_def test_agent_def execute_tool_def ReadFileDefinition_def
    read_file_def read_file_try_def parse_input_def contains_key_def subscript_def os_path_exists_def
    open_read_def leave_def test_fs_stat_f)


section \<open>Paths as strings\<close>

lemma split_on_not_Nil [simp]: "split_on c s \<noteq> []"
  by (induction s) (auto split: list.splits)

lemma split_on_no_sep: "c \<notin> set s \<Longrightarrow> split_on c s = [s]"
  by (induction s) auto

lemma split_on_append_sep: "split_on c (xs @ c # ys) = split_on c xs @ split_on c ys"
proof (induction xs)
  case Nil
  then show ?case by simp
next
  case (Cons x xs)
  then show ?case
    by (cases "split_on c xs") auto
qed

lemma split_on_snoc_sep: "split_on c (xs @ [c]) = split_on c xs @ [[]]"
  using split_on_append_sep [of c xs "[]"] by simp

lemma components_Nil [simp]: "components [] = []"
  by (simp add: components_def)

lemma components_snoc_slash: "components (d @ ''/'') = components d"
  by (simp add: components_def split_on_snoc_sep)

lemma components_slash_name:
  assumes "valid_name x"
  shows "components (d @ CHR ''/'' # x) = components d @ [x]"
    and "last (split_on CHR ''/'' (d @ CHR ''/'' # x)) = x"
  using assms
  by (simp_all add: components_def split_on_append_sep split_on_no_sep valid_name_def)

lemma components_name:
  assumes "valid_name x"
  shows "components x = [x]" and "last (split_on CHR ''/'' x) = x"
  using assms by (simp_all add: components_def split_on_no_sep valid_name_def)

lemma path_join_child:
  assumes "valid_name x"
  shows "components (path_join d x) = components d @ [x]"
    and "\<not> needs_dir (path_join d x)"
    and "path_join d x \<noteq> []"
proof -
  from assms have x: "x \<noteq> []" "hd x \<noteq> CHR ''/''" "x \<noteq> ''.''"
    by (cases x; auto simp: valid_name_def)+
  consider "d = []" | d' where "d = d' @ ''/''" | "d \<noteq> []" "last d \<noteq> CHR ''/''"
    by (cases d rule: rev_cases) auto
  then have "components (path_join d x) = components d @ [x] \<and>
             last (split_on CHR ''/'' (path_join d x)) = x"
  proof cases
    case 1
    with x assms show ?thesis by (simp add: path_join_def components_name)
  next
    case 2
    then have "path_join d x = d' @ CHR ''/'' # x"
      using x by (simp add: path_join_def)
    with 2 assms show ?thesis
      by (simp add: components_slash_name components_snoc_slash)
  next
    case 3
    then have "path_join d x = d @ CHR ''/'' # x"
      using x by (simp add: path_join_def)
    with assms show ?thesis by (simp add: components_slash_name)
  qed
  with x show "components (path_join d x) = components d @ [x]"
    and "\<not> needs_dir (path_join d x)"
    by (simp_all add: needs_dir_def)
  show "path_join d x \<noteq> []"
    using x by (auto simp: path_join_def)
qed

section \<open>Walking the tree\<close>

lemma walk_append_Inr: "walk n xs = Inr m \<Longrightarrow> walk n (xs @ ys) = walk m ys"
  by (induction n xs rule: walk.induct) (auto split: option.splits)

lemma wf_node_walk: "wf_node n \<Longrightarrow> walk n xs = Inr m \<Longrightarrow> wf_node m"
proof (induction n xs rule: walk.induct)
  case (3 es x xs)
  then obtain k where k: "map_of es x = Some k" "walk k xs = Inr m"
    by (auto split: option.splits)
  then have "(x, k) \<in> set es" by (simp add: map_of_SomeD)
  with 3 have "wf_node k" by (auto simp: list_all_iff)
  with 3 k show ?case by simp
qed simp_all

lemma stat_dir_components:
  "os_stat fs p = Inr (Dir es) \<Longrightarrow> p \<noteq> [] \<and> walk fs (components p) = Inr (Dir es)"
  by (auto simp: os_stat_def split: if_splits sum.splits node.splits)

text \<open>The kind of a child, read off the directory entry.\<close>

lemma isdir_child:
  assumes "os_stat fs d = Inr (Dir es)" and "distinct (map fst es)"
    and "(x, n) \<in> set es" and "valid_name x"
  shows "os_path_isdir fs (path_join d x) = (case n of Dir k \<Rightarrow> True | File c \<Rightarrow> False)"
proof -
  have w: "walk fs (components d) = Inr (Dir es)"
    using assms(1) stat_dir_components by blast
  have m: "map_of es x = Some n"
    using assms(2,3) by simp
  have "walk fs (components (path_join d x)) = Inr n"
    using walk_append_Inr [OF w, of "[x]"] m path_join_child(1) [OF assms(4)] by simp
  then show ?thesis
    using path_join_child(2,3) [OF assms(4), of d]
    by (simp add: os_path_isdir_def os_stat_def split: node.splits)
qed


section \<open>\<^verbatim>\<open>list_files\<close> on a directory\<close>

lemma mark_items:
  assumes "os_stat fs d = Inr (Dir es)" and "wf_node fs"
  shows "map (mark_item fs d) (map fst es) = map entry_name es"
proof -
  have "wf_node (Dir es)"
    using assms stat_dir_components wf_node_walk by blast
  then have dist: "distinct (map fst es)" and names: "\<forall>e \<in> set es. valid_name (fst e)"
    by (auto simp: list_all_iff)
  have "mark_item fs d (fst e) = entry_name e" if "e \<in> set es" for e
  proof -
    obtain x n where e: "e = (x, n)" by (cases e)
    with that names have "valid_name x" by auto
    then have "os_path_isdir fs (path_join d x) = (case n of Dir k \<Rightarrow> True | File c \<Rightarrow> False)"
      using isdir_child [OF assms(1) dist] that e by blast
    with e show ?thesis
      by (simp add: mark_item_def entry_name_def split: node.splits)
  qed
  then show ?thesis by simp
qed

text \<open>
  C6.  On an existing directory, \<^verbatim>\<open>list_files\<close> returns, with no error, the JSON text
  of the object whose \<^verbatim>\<open>files\<close> are the names of the directory's immediate children,
  each directory's name followed by \<^verbatim>\<open>/\<close>, sorted ascending; whose \<^verbatim>\<open>directory\<close> is
  the path; and whose \<^verbatim>\<open>count\<close> is the number of children.
\<close>

theorem list_files_listing:
  assumes "parse_input rt input_data = Next v"
    and "dict_get v ''path'' ''.'' = Inr dir_path"
    and "os_stat fs dir_path = Inr (Dir es)"
    and "wf_node fs"
  shows "list_files rt fs input_data =
           (Inr (json_dumps rt
                   (JObj [(''files'', JArr (map JStr (sort (map entry_name es)))),
                          (''directory'', JStr dir_path),
                          (''count'', JInt (int (length es)))]),
                 None),
            fs)"
proof -
  have "os_path_exists fs dir_path" and "os_path_isdir fs dir_path"
    and "os_listdir fs dir_path = Inr (map fst es)"
    using assms(3) by (simp_all add: os_path_exists_def os_path_isdir_def os_listdir_def)
  then have "list_files_try rt fs input_data =
      Returned (json_dumps rt
        (listing (sort (map (mark_item fs dir_path) (map fst es))) dir_path), None)"
    using assms(1,2) by (simp add: list_files_try_def del: map_map)
  then have "list_files_try rt fs input_data =
      Returned (json_dumps rt (listing (sort (map entry_name es)) dir_path), None)"
    by (simp only: mark_items [OF assms(3,4)])
  then show ?thesis
    by (simp add: list_files_def leave_def listing_def)
qed

lemma wf_test_fs: "wf_node test_fs"
  by (simp add: test_fs_def valid_name_def)

theorem list_files_listing_witness:
  "list_files test_runtime test_fs (InDict [(''path'', ''d'')]) =
     (Inr (json_dumps test_runtime
             (JObj [(''files'', JArr [JStr ''a.txt'', JStr ''b.txt'', JStr ''sub/'']),
                    (''directory'', JStr ''d''),
                    (''count'', JInt 3)]),
           None),
      test_fs)"
proof -
  let ?d = "[(''path'', ''d'')]"
  have "parse_input test_runtime (InDict ?d) = Next (Obj ?d)"
    by (simp add: parse_input_def)
  moreover have "dict_get (Obj ?d) ''path'' ''.'' = Inr ''d''"
    by (simp add: dict_get_def)
  moreover have "os_stat test_fs ''d'' =
      Inr (Dir [(''b.txt'', File []), (''a.txt'', File ''x''), (''sub'', Dir [])])"
    by (simp add: os_stat_def test_fs_def components_def needs_dir_def)
  moreover have "sort [''b.txt'', ''a.txt'', ''sub/''] = [''a.txt'', ''b.txt'', ''sub/'']"
    by simp
  ultimately show ?thesis
    using list_files_listing [of test_runtime "InDict ?d" "Obj ?d" "''d''" test_fs
        "[(''b.txt'', File []), (''a.txt'', File ''x''), (''sub'', Dir [])]"] wf_test_fs
    by (simp add: entry_name_def)
qed



section \<open>\<^verbatim>\<open>os.path.dirname\<close>\<close>






section \<open>Creating directories and files\<close>






section \<open>\<^verbatim>\<open>edit_file\<close> on a path that does not exist\<close>








end
